theory Spec2Isabelle
  imports Complex_Main
begin

section \<open>The page-layout viewer of PdfLayoutViewer.tsx\<close>

text \<open>
  The component \<^verbatim>\<open>PDFLayoutViewer\<close> keeps its data in React state variables and
  changes them in event handlers and effects. Each handler is modelled as a function
  from the component state to the component state after the handler has run and React
  has applied its state updates.

  Conventions of the model:
  \<^item> A JavaScript \<^verbatim>\<open>number\<close> is a real number or the value \<open>NaN\<close>. Rounding and
    overflow of doubles are not modelled. \<^verbatim>\<open>undefined\<close>, which a destructured \<^verbatim>\<open>bbox\<close>
    with fewer than four entries yields, is represented by \<open>NaN\<close> as well: every
    operation the component applies to a coordinate (\<^verbatim>\<open>+\<close>, \<^verbatim>\<open>-\<close>, \<^verbatim>\<open>/\<close>, \<^verbatim>\<open>Math.abs\<close>,
    \<^verbatim>\<open><=\<close>, \<^verbatim>\<open>>=\<close>) treats the two alike.
  \<^item> Pointer coordinates, the canvas offset and the numbers of a parsed JSON document
    are finite, so they are plain reals.
  \<^item> The object literal \<^verbatim>\<open>categoryColors\<close> is the finite map of its four own entries;
    properties inherited from \<^verbatim>\<open>Object.prototype\<close> are not modelled.
  \<^item> Page numbers are integers.
  \<^item> The fields of \<^verbatim>\<open>DraggableRect\<close> and \<^verbatim>\<open>Block\<close> carry the prefixes \<open>rect_\<close> and
    \<open>block_\<close> (\<^verbatim>\<open>r.x\<close> is \<open>rect_x r\<close>), and the member \<^verbatim>\<open>DragMode.None\<close> is \<open>NoneMode\<close>.
\<close>

subsection \<open>Numbers\<close>

datatype number = Num real | NaN

fun jadd :: "number \<Rightarrow> number \<Rightarrow> number" where
  "jadd (Num a) (Num b) = Num (a + b)"
| "jadd _ _ = NaN"

fun jsub :: "number \<Rightarrow> number \<Rightarrow> number" where
  "jsub (Num a) (Num b) = Num (a - b)"
| "jsub _ _ = NaN"

text \<open>\<^verbatim>\<open>n / 2\<close>, the only division of the component.\<close>

fun half :: "number \<Rightarrow> number" where
  "half (Num a) = Num (a / 2)"
| "half NaN = NaN"

fun jabs :: "number \<Rightarrow> number" where
  "jabs (Num a) = Num \<bar>a\<bar>"
| "jabs NaN = NaN"

text \<open>Comparisons: every comparison with \<open>NaN\<close> is false.\<close>

fun jle :: "number \<Rightarrow> number \<Rightarrow> bool" where
  "jle (Num a) (Num b) = (a \<le> b)"
| "jle _ _ = False"

fun jge :: "number \<Rightarrow> number \<Rightarrow> bool" where
  "jge (Num a) (Num b) = (a \<ge> b)"
| "jge _ _ = False"

subsection \<open>The JSON document\<close>

text \<open>
  Of \<^verbatim>\<open>Block\<close>, \<^verbatim>\<open>PageInfo\<close> and \<^verbatim>\<open>JsonData\<close> only the fields the component reads are
  kept. A page entry that came from JSON may lack \<^verbatim>\<open>preproc_blocks\<close> (the component
  tests for it), which is \<open>None\<close>; an array, also an empty one, is truthy.
\<close>

record Block =
  block_type :: string
  block_bbox :: "real list"

record PageInfo =
  preproc_blocks :: "Block list option"

record JsonData =
  pdf_info :: "PageInfo list"

subsection \<open>Rectangles and the drag mode\<close>

definition categoryColors :: "string \<rightharpoonup> string" where
  "categoryColors =
     [''title'' \<mapsto> ''black'',
      ''image'' \<mapsto> ''blue'',
      ''text'' \<mapsto> ''grey'',
      ''interline_equation'' \<mapsto> ''green'']"

record DraggableRect =
  rect_id :: string
  rect_x :: number
  rect_y :: number
  rect_width :: number
  rect_height :: number
  rect_color :: string
  rect_type :: string

datatype DragMode =
    NoneMode
  | Move
  | ResizeTop
  | ResizeRight
  | ResizeBottom
  | ResizeLeft
  | ResizeTopLeft
  | ResizeTopRight
  | ResizeBottomLeft
  | ResizeBottomRight

subsection \<open>The component state\<close>

text \<open>
  The state variables of the component, in the order of their \<^verbatim>\<open>useState\<close> calls;
  \<open>lastMousePos\<close> is the pair \<open>(x, y)\<close>. \<^verbatim>\<open>imageDimensions\<close> only scales the buttons
  and is left out.
\<close>

record ViewerState =
  pageNumber :: int
  imageUrl :: "string option"
  jsonData :: "JsonData option"
  loading :: bool
  error :: "string option"
  rectangles :: "DraggableRect list"
  dragMode :: DragMode
  draggedRectId :: "string option"
  lastMousePos :: "real \<times> real"

text \<open>The state after the first render, before any effect has run.\<close>

definition initialState :: "int \<Rightarrow> ViewerState" where
  "initialState initialPageNumber =
     \<lparr>pageNumber = initialPageNumber, imageUrl = None, jsonData = None, loading = True,
      error = None, rectangles = [], dragMode = NoneMode, draggedRectId = None,
      lastMousePos = (0, 0)\<rparr>"

text \<open>Truthiness of a \<^verbatim>\<open>string | null\<close>: \<^verbatim>\<open>null\<close> and the empty string are falsy.\<close>

fun truthy :: "string option \<Rightarrow> bool" where
  "truthy None = False"
| "truthy (Some s) = (s \<noteq> [])"

subsection \<open>Loading a page: \<^verbatim>\<open>loadFiles\<close>\<close>

text \<open>
  A value caught by \<^verbatim>\<open>catch (err)\<close> is an \<^verbatim>\<open>Error\<close> with its message, or some other
  value. A \<^verbatim>\<open>fetch\<close> rejects (\<open>Inl\<close>) or resolves to a response with its \<^verbatim>\<open>ok\<close> flag and
  its body; reading the body (\<^verbatim>\<open>.json()\<close>, \<^verbatim>\<open>.blob()\<close>) rejects or yields the payload.
  The payload of the image response stands for the object URL that
  \<^verbatim>\<open>URL.createObjectURL\<close> gives its blob.
\<close>

datatype thrown = ErrorObj string | OtherValue

record 'a Response =
  ok :: bool
  body :: "thrown + 'a"

type_synonym 'a fetched = "thrown + 'a Response"

text \<open>
  The \<^verbatim>\<open>try\<close> block: the state reached, and the value thrown if the block was left by
  an exception. The image is requested only after the JSON document has been stored.
\<close>

definition tryLoad ::
  "JsonData fetched \<Rightarrow> string fetched \<Rightarrow> ViewerState \<Rightarrow> thrown option \<times> ViewerState" where
  "tryLoad jsonFetch imageFetch st0 =
     (let st1 = st0\<lparr>loading := True\<rparr> in
      case jsonFetch of
        Inl err \<Rightarrow> (Some err, st1)
      | Inr jsonResponse \<Rightarrow>
          if \<not> ok jsonResponse then (Some (ErrorObj ''Failed to load JSON file''), st1)
          else
            (case body jsonResponse of
               Inl err \<Rightarrow> (Some err, st1)
             | Inr data \<Rightarrow>
                 let st2 = st1\<lparr>jsonData := Some data\<rparr> in
                 (case imageFetch of
                    Inl err \<Rightarrow> (Some err, st2)
                  | Inr imageResponse \<Rightarrow>
                      if \<not> ok imageResponse
                      then (Some (ErrorObj ''Failed to load image file''), st2)
                      else
                        (case body imageResponse of
                           Inl err \<Rightarrow> (Some err, st2)
                         | Inr url \<Rightarrow>
                             (None, st2\<lparr>imageUrl := Some url, loading := False\<rparr>)))))"

text \<open>\<^verbatim>\<open>err instanceof Error ? err.message : 'An unknown error occurred'\<close>\<close>

fun errorMessage :: "thrown \<Rightarrow> string" where
  "errorMessage (ErrorObj message) = message"
| "errorMessage OtherValue = ''An unknown error occurred''"

definition loadFiles ::
  "JsonData fetched \<Rightarrow> string fetched \<Rightarrow> ViewerState \<Rightarrow> ViewerState" where
  "loadFiles jsonFetch imageFetch st =
     (case tryLoad jsonFetch imageFetch st of
        (None, st') \<Rightarrow> st'
      | (Some err, st') \<Rightarrow> st'\<lparr>error := Some (errorMessage err), loading := False\<rparr>)"

subsection \<open>Deriving the rectangles: the effect on \<^verbatim>\<open>jsonData\<close>\<close>

text \<open>\<^verbatim>\<open>index.toString()\<close> inside the template literal: the decimal digits of the index.\<close>

definition digit :: "nat \<Rightarrow> char" where
  "digit d = ''0123456789'' ! d"

fun toString :: "nat \<Rightarrow> string" where
  "toString n = (if n < 10 then [digit n] else toString (n div 10) @ [digit (n mod 10)])"

declare toString.simps [simp del]

text \<open>
  \<^verbatim>\<open>const [x0, y0, x1, y1] = block.bbox\<close>: an entry the array does not have is
  \<^verbatim>\<open>undefined\<close>.
\<close>

definition entry :: "real list \<Rightarrow> nat \<Rightarrow> number" where
  "entry bbox i = (if i < length bbox then Num (bbox ! i) else NaN)"

text \<open>\<^verbatim>\<open>categoryColors[block.type] || 'black'\<close>\<close>

definition colorOf :: "string \<Rightarrow> string" where
  "colorOf t = (if truthy (categoryColors t) then the (categoryColors t) else ''black'')"

text \<open>The callback of \<^verbatim>\<open>preproc_blocks.map\<close>.\<close>

definition toRect :: "Block \<Rightarrow> nat \<Rightarrow> DraggableRect" where
  "toRect block index =
     (let x0 = entry (block_bbox block) 0; y0 = entry (block_bbox block) 1;
          x1 = entry (block_bbox block) 2; y1 = entry (block_bbox block) 3
      in \<lparr>rect_id = ''rect-'' @ toString index,
          rect_x = x0,
          rect_y = y0,
          rect_width = jsub x1 x0,
          rect_height = jsub y1 y0,
          rect_color = colorOf (block_type block),
          rect_type = block_type block\<rparr>)"

text \<open>\<^verbatim>\<open>Array.prototype.map\<close> with a callback that takes the element and its index.\<close>

fun mapFrom :: "nat \<Rightarrow> ('a \<Rightarrow> nat \<Rightarrow> 'b) \<Rightarrow> 'a list \<Rightarrow> 'b list" where
  "mapFrom i f [] = []"
| "mapFrom i f (a # as) = f a i # mapFrom (Suc i) f as"

definition mapIndexed :: "('a \<Rightarrow> nat \<Rightarrow> 'b) \<Rightarrow> 'a list \<Rightarrow> 'b list" where
  "mapIndexed f as = mapFrom 0 f as"

text \<open>
  The effect that runs when \<^verbatim>\<open>jsonData\<close> has changed. Reading \<^verbatim>\<open>preproc_blocks\<close> of
  \<^verbatim>\<open>pdf_info[0]\<close> throws a \<^verbatim>\<open>TypeError\<close> when \<^verbatim>\<open>pdf_info\<close> is empty.
\<close>

datatype effectError = TypeError

definition jsonDataEffect :: "ViewerState \<Rightarrow> effectError + ViewerState" where
  "jsonDataEffect st =
     (case jsonData st of
        None \<Rightarrow> Inr st
      | Some jd \<Rightarrow>
          (case pdf_info jd of
             [] \<Rightarrow> Inl TypeError
           | jd001 # _ \<Rightarrow>
               (case preproc_blocks jd001 of
                  None \<Rightarrow> Inr st
                | Some blocks \<Rightarrow> Inr (st\<lparr>rectangles := mapIndexed toRect blocks\<rparr>))))"

text \<open>
  A new document arrives: \<^verbatim>\<open>setJsonData(data)\<close> stores it and, the parsed object being a
  new one, the effect runs.
\<close>

definition documentLoaded :: "JsonData \<Rightarrow> ViewerState \<Rightarrow> effectError + ViewerState" where
  "documentLoaded data st = jsonDataEffect (st\<lparr>jsonData := Some data\<rparr>)"

text \<open>
  A whole page load: \<^verbatim>\<open>loadFiles\<close>, and the effect on \<^verbatim>\<open>jsonData\<close> when \<^verbatim>\<open>loadFiles\<close> has
  called \<^verbatim>\<open>setJsonData\<close>. The two touch different state variables, so the order in
  which React interleaves them does not change the state they end in.
\<close>

fun jsonStored :: "JsonData fetched \<Rightarrow> bool" where
  "jsonStored (Inl err) = False"
| "jsonStored (Inr jsonResponse) =
     (ok jsonResponse \<and> (case body jsonResponse of Inl err \<Rightarrow> False | Inr data \<Rightarrow> True))"

definition pageLoad ::
  "JsonData fetched \<Rightarrow> string fetched \<Rightarrow> ViewerState \<Rightarrow> effectError + ViewerState" where
  "pageLoad jsonFetch imageFetch st =
     (let st' = loadFiles jsonFetch imageFetch st
      in if jsonStored jsonFetch then jsonDataEffect st' else Inr st')"

subsection \<open>Pointer events\<close>

text \<open>
  \<^verbatim>\<open>canvasRef.current\<close> is \<open>None\<close> while the canvas is not mounted; otherwise it gives the
  \<^verbatim>\<open>left\<close> and \<^verbatim>\<open>top\<close> of its bounding rectangle.
\<close>

record BoundingRect =
  left :: real
  top :: real

record MouseEvent =
  clientX :: real
  clientY :: real

definition handleSize :: number where
  "handleSize = Num 8"

text \<open>
  The callback of \<^verbatim>\<open>rectangles.find\<close> in \<^verbatim>\<open>handleMouseDown\<close>. It returns whether the
  rectangle is hit and, as its side effect, sets the drag mode.
\<close>

definition hit :: "number \<Rightarrow> number \<Rightarrow> DraggableRect \<Rightarrow> ViewerState \<Rightarrow> bool \<times> ViewerState" where
  "hit x y r st =
     (if jle (jabs (jsub x (rect_x r))) handleSize \<and> jle (jabs (jsub y (rect_y r))) handleSize
      then (True, st\<lparr>dragMode := ResizeTopLeft\<rparr>)
      else if jle (jabs (jsub x (jadd (rect_x r) (rect_width r)))) handleSize
            \<and> jle (jabs (jsub y (rect_y r))) handleSize
      then (True, st\<lparr>dragMode := ResizeTopRight\<rparr>)
      else if jle (jabs (jsub x (rect_x r))) handleSize
            \<and> jle (jabs (jsub y (jadd (rect_y r) (rect_height r)))) handleSize
      then (True, st\<lparr>dragMode := ResizeBottomLeft\<rparr>)
      else if jle (jabs (jsub x (jadd (rect_x r) (rect_width r)))) handleSize
            \<and> jle (jabs (jsub y (jadd (rect_y r) (rect_height r)))) handleSize
      then (True, st\<lparr>dragMode := ResizeBottomRight\<rparr>)
      else if jle (jabs (jsub x (jadd (rect_x r) (half (rect_width r))))) handleSize
            \<and> jle (jabs (jsub y (rect_y r))) handleSize
      then (True, st\<lparr>dragMode := ResizeTop\<rparr>)
      else if jle (jabs (jsub x (jadd (rect_x r) (rect_width r)))) handleSize
            \<and> jle (jabs (jsub y (jadd (rect_y r) (half (rect_height r))))) handleSize
      then (True, st\<lparr>dragMode := ResizeRight\<rparr>)
      else if jle (jabs (jsub x (jadd (rect_x r) (half (rect_width r))))) handleSize
            \<and> jle (jabs (jsub y (jadd (rect_y r) (rect_height r)))) handleSize
      then (True, st\<lparr>dragMode := ResizeBottom\<rparr>)
      else if jle (jabs (jsub x (rect_x r))) handleSize
            \<and> jle (jabs (jsub y (jadd (rect_y r) (half (rect_height r))))) handleSize
      then (True, st\<lparr>dragMode := ResizeLeft\<rparr>)
      else if jge x (rect_x r) \<and> jle x (jadd (rect_x r) (rect_width r))
            \<and> jge y (rect_y r) \<and> jle y (jadd (rect_y r) (rect_height r))
      then (True, st\<lparr>dragMode := Move\<rparr>)
      else (False, st))"

text \<open>
  \<^verbatim>\<open>Array.prototype.find\<close> with a callback that changes the state: the callback runs
  on the elements in order and no more once it has returned true.
\<close>

fun findRect ::
  "(DraggableRect \<Rightarrow> ViewerState \<Rightarrow> bool \<times> ViewerState) \<Rightarrow> DraggableRect list \<Rightarrow> ViewerState
     \<Rightarrow> DraggableRect option \<times> ViewerState" where
  "findRect p [] st = (None, st)"
| "findRect p (r # rs) st =
     (case p r st of
        (True, st') \<Rightarrow> (Some r, st')
      | (False, st') \<Rightarrow> findRect p rs st')"

definition handleMouseDown :: "BoundingRect option \<Rightarrow> MouseEvent \<Rightarrow> ViewerState \<Rightarrow> ViewerState" where
  "handleMouseDown canvas e st =
     (case canvas of
        None \<Rightarrow> st
      | Some rect \<Rightarrow>
          let x = clientX e - left rect;
              y = clientY e - top rect
          in (case findRect (hit (Num x) (Num y)) (rectangles st) st of
                (None, st') \<Rightarrow> st'
              | (Some clickedRect, st') \<Rightarrow>
                  st'\<lparr>draggedRectId := Some (rect_id clickedRect), lastMousePos := (x, y)\<rparr>))"

text \<open>The \<^verbatim>\<open>switch\<close> of \<^verbatim>\<open>handleMouseMove\<close> on the dragged rectangle.\<close>

fun applyDrag :: "DragMode \<Rightarrow> real \<Rightarrow> real \<Rightarrow> DraggableRect \<Rightarrow> DraggableRect" where
  "applyDrag Move dx dy r =
     r\<lparr>rect_x := jadd (rect_x r) (Num dx), rect_y := jadd (rect_y r) (Num dy)\<rparr>"
| "applyDrag ResizeTop dx dy r =
     r\<lparr>rect_y := jadd (rect_y r) (Num dy), rect_height := jsub (rect_height r) (Num dy)\<rparr>"
| "applyDrag ResizeRight dx dy r =
     r\<lparr>rect_width := jadd (rect_width r) (Num dx)\<rparr>"
| "applyDrag ResizeBottom dx dy r =
     r\<lparr>rect_height := jadd (rect_height r) (Num dy)\<rparr>"
| "applyDrag ResizeLeft dx dy r =
     r\<lparr>rect_x := jadd (rect_x r) (Num dx), rect_width := jsub (rect_width r) (Num dx)\<rparr>"
| "applyDrag ResizeTopLeft dx dy r =
     r\<lparr>rect_x := jadd (rect_x r) (Num dx), rect_y := jadd (rect_y r) (Num dy),
       rect_width := jsub (rect_width r) (Num dx), rect_height := jsub (rect_height r) (Num dy)\<rparr>"
| "applyDrag ResizeTopRight dx dy r =
     r\<lparr>rect_y := jadd (rect_y r) (Num dy), rect_width := jadd (rect_width r) (Num dx),
       rect_height := jsub (rect_height r) (Num dy)\<rparr>"
| "applyDrag ResizeBottomLeft dx dy r =
     r\<lparr>rect_x := jadd (rect_x r) (Num dx), rect_width := jsub (rect_width r) (Num dx),
       rect_height := jadd (rect_height r) (Num dy)\<rparr>"
| "applyDrag ResizeBottomRight dx dy r =
     r\<lparr>rect_width := jadd (rect_width r) (Num dx), rect_height := jadd (rect_height r) (Num dy)\<rparr>"
| "applyDrag NoneMode dx dy r = r"

definition handleMouseMove :: "BoundingRect option \<Rightarrow> MouseEvent \<Rightarrow> ViewerState \<Rightarrow> ViewerState" where
  "handleMouseMove canvas e st =
     (if dragMode st = NoneMode \<or> \<not> truthy (draggedRectId st) then st
      else
        (case canvas of
           None \<Rightarrow> st
         | Some rect \<Rightarrow>
             let x = clientX e - left rect;
                 y = clientY e - top rect;
                 dx = x - fst (lastMousePos st);
                 dy = y - snd (lastMousePos st)
             in st\<lparr>rectangles :=
                      map (\<lambda>r. if Some (rect_id r) \<noteq> draggedRectId st then r
                                else applyDrag (dragMode st) dx dy r)
                          (rectangles st),
                    lastMousePos := (x, y)\<rparr>))"

definition handleMouseUp :: "ViewerState \<Rightarrow> ViewerState" where
  "handleMouseUp st = st\<lparr>dragMode := NoneMode, draggedRectId := None\<rparr>"

subsection \<open>Page navigation and the rendered view\<close>







subsection \<open>Hit-testing as the specification words it\<close>

text \<open>
  The specification describes the pointer-down test by its handles: a handle matches
  when the pointer is within the tolerance of 8 px of it in both directions; the four
  corner handles come first, then the four edge-midpoint handles, then the body. Within
  the corners and within the edges the order is the one in which the component lists
  them. The first rectangle of the list with a matching handle or body wins. These
  definitions are compared with \<open>handleMouseDown\<close> below.
\<close>

definition withinTolerance :: "number \<Rightarrow> number \<Rightarrow> number \<times> number \<Rightarrow> bool" where
  "withinTolerance px py handle =
     (jle (jabs (jsub px (fst handle))) (Num 8) \<and> jle (jabs (jsub py (snd handle))) (Num 8))"

definition cornerHandles :: "DraggableRect \<Rightarrow> (DragMode \<times> number \<times> number) list" where
  "cornerHandles r =
     [(ResizeTopLeft, rect_x r, rect_y r),
      (ResizeTopRight, jadd (rect_x r) (rect_width r), rect_y r),
      (ResizeBottomLeft, rect_x r, jadd (rect_y r) (rect_height r)),
      (ResizeBottomRight, jadd (rect_x r) (rect_width r), jadd (rect_y r) (rect_height r))]"

definition edgeHandles :: "DraggableRect \<Rightarrow> (DragMode \<times> number \<times> number) list" where
  "edgeHandles r =
     [(ResizeTop, jadd (rect_x r) (half (rect_width r)), rect_y r),
      (ResizeRight, jadd (rect_x r) (rect_width r), jadd (rect_y r) (half (rect_height r))),
      (ResizeBottom, jadd (rect_x r) (half (rect_width r)), jadd (rect_y r) (rect_height r)),
      (ResizeLeft, rect_x r, jadd (rect_y r) (half (rect_height r)))]"

definition insideBody :: "number \<Rightarrow> number \<Rightarrow> DraggableRect \<Rightarrow> bool" where
  "insideBody px py r =
     (jge px (rect_x r) \<and> jle px (jadd (rect_x r) (rect_width r))
      \<and> jge py (rect_y r) \<and> jle py (jadd (rect_y r) (rect_height r)))"

definition hitMode :: "number \<Rightarrow> number \<Rightarrow> DraggableRect \<Rightarrow> DragMode option" where
  "hitMode px py r =
     (case find (\<lambda>(mode, handle). withinTolerance px py handle)
             (cornerHandles r @ edgeHandles r) of
        Some (mode, handle) \<Rightarrow> Some mode
      | None \<Rightarrow> if insideBody px py r then Some Move else None)"

fun firstHit ::
  "number \<Rightarrow> number \<Rightarrow> DraggableRect list \<Rightarrow> (DraggableRect \<times> DragMode) option" where
  "firstHit px py [] = None"
| "firstHit px py (r # rs) =
     (case hitMode px py r of
        Some mode \<Rightarrow> Some (r, mode)
      | None \<Rightarrow> firstHit px py rs)"

definition pointerDown :: "real \<Rightarrow> real \<Rightarrow> ViewerState \<Rightarrow> ViewerState" where
  "pointerDown px py st =
     (case firstHit (Num px) (Num py) (rectangles st) of
        None \<Rightarrow> st
      | Some (r, mode) \<Rightarrow>
          st\<lparr>dragMode := mode, draggedRectId := Some (rect_id r), lastMousePos := (px, py)\<rparr>)"

subsection \<open>Example data\<close>

definition box :: "string \<Rightarrow> real \<Rightarrow> real \<Rightarrow> real \<Rightarrow> real \<Rightarrow> DraggableRect" where
  "box name a b w h =
     \<lparr>rect_id = name, rect_x = Num a, rect_y = Num b, rect_width = Num w,
      rect_height = Num h, rect_color = ''grey'', rect_type = ''text''\<rparr>"

definition origin :: BoundingRect where
  "origin = \<lparr>left = 0, top = 0\<rparr>"

text \<open>A document with two text blocks, and the page it gives once loaded.\<close>

definition twoBlocks :: JsonData where
  "twoBlocks = \<lparr>pdf_info =
     [\<lparr>preproc_blocks =
        Some [\<lparr>block_type = ''text'', block_bbox = [10, 20, 110, 70]\<rparr>,
              \<lparr>block_type = ''text'', block_bbox = [200, 200, 230, 230]\<rparr>]\<rparr>]\<rparr>"

definition displayed :: ViewerState where
  "displayed =
     \<lparr>pageNumber = 1, imageUrl = Some ''blob:1'', jsonData = Some twoBlocks, loading = False,
      error = None,
      rectangles = [box ''rect-0'' 10 20 100 50, box ''rect-1'' 200 200 30 30],
      dragMode = NoneMode, draggedRectId = None, lastMousePos = (0, 0)\<rparr>"

text \<open>That page with a drag of its first rectangle under way, begun at \<open>pos\<close>.\<close>

definition dragging :: "DragMode \<Rightarrow> real \<times> real \<Rightarrow> ViewerState" where
  "dragging mode pos =
     displayed\<lparr>dragMode := mode, draggedRectId := Some ''rect-0'', lastMousePos := pos\<rparr>"

text \<open>
  A page with three rectangles, the handles of the second and the body of the third
  overlapping.
\<close>

definition overlapping :: ViewerState where
  "overlapping =
     displayed\<lparr>rectangles := [box ''rect-0'' 100 100 10 10, box ''rect-1'' 0 0 10 10,
                                box ''rect-2'' 0 0 100 100]\<rparr>"

text \<open>The document of the end-to-end scenario: one text block.\<close>

definition page1 :: JsonData where
  "page1 = \<lparr>pdf_info =
     [\<lparr>preproc_blocks = Some [\<lparr>block_type = ''text'', block_bbox = [10, 20, 110, 70]\<rparr>]\<rparr>]\<rparr>"

text \<open>A document whose first page entry has no \<^verbatim>\<open>preproc_blocks\<close>.\<close>

definition pageWithoutBlocks :: JsonData where
  "pageWithoutBlocks = \<lparr>pdf_info = [\<lparr>preproc_blocks = None\<rparr>]\<rparr>"

text \<open>Responses: a success with a payload, and a non-success status.\<close>

definition success :: "'a \<Rightarrow> 'a fetched" where
  "success payload = Inr \<lparr>ok = True, body = Inr payload\<rparr>"


section \<open>Properties\<close>

subsection \<open>Auxiliary facts\<close>



lemma loadFiles_succeeded:
  "ok jsonResponse \<Longrightarrow> body jsonResponse = Inr data \<Longrightarrow>
   ok imageResponse \<Longrightarrow> body imageResponse = Inr url \<Longrightarrow>
     loadFiles (Inr jsonResponse) (Inr imageResponse) st =
       st\<lparr>jsonData := Some data, imageUrl := Some url, loading := False\<rparr>"
  by (simp add: loadFiles_def tryLoad_def)

lemma length_mapFrom: "length (mapFrom i f as) = length as"
  by (induction as arbitrary: i) simp_all

lemma nth_mapFrom: "k < length as \<Longrightarrow> mapFrom i f as ! k = f (as ! k) (i + k)"
proof (induction as arbitrary: i k)
  case Nil
  then show ?case by simp
next
  case (Cons a as)
  then show ?case by (cases k) simp_all
qed

lemma length_mapIndexed: "length (mapIndexed f as) = length as"
  by (simp add: mapIndexed_def length_mapFrom)

lemma nth_mapIndexed: "k < length as \<Longrightarrow> mapIndexed f as ! k = f (as ! k) k"
  by (simp add: mapIndexed_def nth_mapFrom)

text \<open>The decimal representation is injective, so the derived ids are distinct.\<close>

lemma digit_inj: "a < 10 \<Longrightarrow> b < 10 \<Longrightarrow> digit a = digit b \<Longrightarrow> a = b"
  using nth_eq_iff_index_eq [of "''0123456789''" a b] by (simp add: digit_def)

lemma toString_not_Nil: "toString n \<noteq> []"
  by (subst toString.simps) simp

lemma toString_inj: "toString n = toString m \<Longrightarrow> n = m"
proof (induction n arbitrary: m rule: toString.induct)
  case (1 n)
  show ?case
  proof (cases "n < 10")
    case True
    show ?thesis
    proof (cases "m < 10")
      case mlt: True
      with True "1.prems" show ?thesis
        by (simp add: toString.simps [of n] toString.simps [of m] digit_inj)
    next
      case False
      with True "1.prems" show ?thesis
        using toString_not_Nil [of "m div 10"]
        by (simp add: toString.simps [of n] toString.simps [of m])
    qed
  next
    case False
    show ?thesis
    proof (cases "m < 10")
      case True
      with False "1.prems" show ?thesis
        using toString_not_Nil [of "n div 10"]
        by (simp add: toString.simps [of n] toString.simps [of m])
    next
      case mge: False
      from False mge "1.prems"
      have eq: "toString (n div 10) = toString (m div 10)"
        "digit (n mod 10) = digit (m mod 10)"
        by (simp_all add: toString.simps [of n] toString.simps [of m])
      from "1.IH" [OF False eq(1)] have "n div 10 = m div 10" .
      moreover from eq(2) have "n mod 10 = m mod 10"
        by (simp add: digit_inj)
      ultimately show ?thesis
        by (metis div_mult_mod_eq)
    qed
  qed
qed

lemma rect_id_toRect: "rect_id (toRect block index) = ''rect-'' @ toString index"
  by (simp add: toRect_def Let_def)

lemma derived_ids_distinct: "distinct (map rect_id (mapIndexed toRect blocks))"
  by (auto simp: distinct_conv_nth length_mapIndexed nth_mapIndexed rect_id_toRect
      dest: toString_inj)

lemma rect_id_applyDrag: "rect_id (applyDrag mode dx dy r) = rect_id r"
  by (cases mode) simp_all

lemma handleMouseMove_ids:
  "map rect_id (rectangles (handleMouseMove canvas e st)) = map rect_id (rectangles st)"
  by (simp add: handleMouseMove_def Let_def rect_id_applyDrag split: option.splits)

lemma handleMouseMove_length:
  "length (rectangles (handleMouseMove canvas e st)) = length (rectangles st)"
  using arg_cong [OF handleMouseMove_ids, of length canvas e st] by simp

text \<open>What a pointer move does to the rectangle at a position of the list during a drag.\<close>

lemma handleMouseMove_nth:
  assumes "dragMode st \<noteq> NoneMode" and "draggedRectId st = Some rid" and "rid \<noteq> []"
    and "i < length (rectangles st)"
  shows "rectangles (handleMouseMove (Some canvas) e st) ! i =
      (if rect_id (rectangles st ! i) = rid
       then applyDrag (dragMode st)
              (clientX e - left canvas - fst (lastMousePos st))
              (clientY e - top canvas - snd (lastMousePos st)) (rectangles st ! i)
       else rectangles st ! i)"
  using assms by (simp add: handleMouseMove_def Let_def)

text \<open>The callback of \<open>find\<close> computes the mode the specification describes.\<close>

lemma hit_hitMode:
  "hit x y r st =
     (case hitMode x y r of
        None \<Rightarrow> (False, st)
      | Some mode \<Rightarrow> (True, st\<lparr>dragMode := mode\<rparr>))"
  by (simp add: hit_def hitMode_def cornerHandles_def edgeHandles_def withinTolerance_def
      insideBody_def handleSize_def)

lemma findRect_firstHit:
  "findRect (hit x y) rs st =
     (case firstHit x y rs of
        None \<Rightarrow> (None, st)
      | Some (r, mode) \<Rightarrow> (Some r, st\<lparr>dragMode := mode\<rparr>))"
  by (induction rs) (simp_all add: hit_hitMode split: option.splits)

lemma handleMouseDown_unmounted: "handleMouseDown None e st = st"
  by (simp add: handleMouseDown_def)

text \<open>The example states are states the component reaches.\<close>

lemma displayed_reached:
  "pageLoad (success twoBlocks) (success ''blob:1'') (initialState 1) = Inr displayed"
  by (simp add: pageLoad_def loadFiles_def tryLoad_def jsonDataEffect_def initialState_def
      success_def twoBlocks_def displayed_def mapIndexed_def toRect_def Let_def entry_def colorOf_def
      categoryColors_def toString.simps digit_def box_def)

lemma dragging_reached:
  "handleMouseDown (Some origin) \<lparr>clientX = 50, clientY = 40\<rparr> displayed
     = dragging Move (50, 40)"
  "handleMouseDown (Some origin) \<lparr>clientX = 10, clientY = 20\<rparr> displayed
     = dragging ResizeTopLeft (10, 20)"
  by (simp_all add: handleMouseDown_def hit_hitMode hitMode_def cornerHandles_def
      edgeHandles_def withinTolerance_def insideBody_def origin_def displayed_def
      dragging_def box_def)

subsection \<open>C1: a failed fetch during a page load\<close>




subsection \<open>C2: hit-testing on pointer-down\<close>

text \<open>
  C2: with the canvas mounted, a pointer-down at \<open>(x, y)\<close> does what \<open>pointerDown\<close>
  describes. The rectangles are examined in list order; for each, the four corner
  handles, then the four edge-midpoint handles, each with the tolerance of 8 px, then
  the body; the first rectangle with a match wins and the first matching mode of that
  order becomes the drag mode, the rectangle's id the dragged id and \<open>(x, y)\<close> the last
  pointer position. When nothing matches the state is unchanged.
\<close>

theorem hit_testing_precedence:
  "handleMouseDown (Some canvas) e st
     = pointerDown (clientX e - left canvas) (clientY e - top canvas) st"
  by (simp add: handleMouseDown_def pointerDown_def findRect_firstHit Let_def
      split: option.splits)

text \<open>
  An instance: the pointer at \<open>(5, 0)\<close> is within the tolerance of the top-left,
  top-right and top handles of the second rectangle and inside the third rectangle; the
  second rectangle is selected with mode \<open>ResizeTopLeft\<close>.
\<close>

theorem hit_testing_precedence_witness:
  "handleMouseDown (Some origin) \<lparr>clientX = 5, clientY = 0\<rparr> overlapping
     = overlapping\<lparr>dragMode := ResizeTopLeft, draggedRectId := Some ''rect-1'',
         lastMousePos := (5, 0)\<rparr>"
  using hit_testing_precedence [of origin "\<lparr>clientX = 5, clientY = 0\<rparr>" overlapping]
  by (simp add: pointerDown_def overlapping_def origin_def box_def hitMode_def
      cornerHandles_def edgeHandles_def withinTolerance_def insideBody_def displayed_def)

subsection \<open>C3: the last pointer position on pointer-move\<close>

text \<open>
  C3, as stated, says that every pointer-move event stores the current pointer
  position, also when no drag is active. The handler returns at its first line when
  the drag mode is \<open>NoneMode\<close>: a move to \<open>(5, 5)\<close> with no drag active leaves the last
  pointer position at \<open>(0, 0)\<close>.
\<close>

theorem idle_move_counterexample:
  "lastMousePos (handleMouseMove (Some origin) \<lparr>clientX = 5, clientY = 5\<rparr> displayed)
     = (0, 0)
   \<and> lastMousePos (handleMouseMove (Some origin) \<lparr>clientX = 5, clientY = 5\<rparr> displayed)
     \<noteq> (clientX \<lparr>clientX = 5, clientY = 5\<rparr> - left origin,
         clientY \<lparr>clientX = 5, clientY = 5\<rparr> - top origin)"
  by (simp add: handleMouseMove_def displayed_def origin_def)

text \<open>
  C3, amended: on a pointer-move event during an active drag (the drag mode is not
  \<open>NoneMode\<close> and the dragged id is a non-empty string) with the canvas mounted, the last
  pointer position becomes the current pointer position; when no drag is active the
  handler leaves the whole state, the last pointer position included, unchanged.
\<close>

theorem last_pointer_while_dragging:
  "(dragMode st \<noteq> NoneMode \<and> truthy (draggedRectId st)
      \<longrightarrow> lastMousePos (handleMouseMove (Some canvas) e st)
            = (clientX e - left canvas, clientY e - top canvas))
   \<and> (dragMode st = NoneMode \<or> \<not> truthy (draggedRectId st)
      \<longrightarrow> handleMouseMove cv e st = st)"
  by (simp add: handleMouseMove_def Let_def)

theorem last_pointer_while_dragging_witness:
  "lastMousePos (handleMouseMove (Some origin) \<lparr>clientX = 53, clientY = 44\<rparr>
      (dragging Move (50, 40))) = (53, 44)
   \<and> handleMouseMove (Some origin) \<lparr>clientX = 53, clientY = 44\<rparr> displayed
     = displayed"
  using last_pointer_while_dragging [of "dragging Move (50, 40)" origin
      "\<lparr>clientX = 53, clientY = 44\<rparr>" "Some origin"]
    last_pointer_while_dragging [of displayed origin
      "\<lparr>clientX = 53, clientY = 44\<rparr>" "Some origin"]
  by (simp add: dragging_def displayed_def origin_def)

subsection \<open>C4: the rectangles of a newly loaded document\<close>

text \<open>
  C4, as stated, says that whenever a new document is loaded the rectangle set is
  replaced by one derived from the blocks of its first page entry, and that nothing of
  the previous set survives. A document whose first page entry has no
  \<^verbatim>\<open>preproc_blocks\<close> leaves both rectangles of the previous page in place.
\<close>

theorem document_without_blocks_counterexample:
  "documentLoaded pageWithoutBlocks displayed
     = Inr (displayed\<lparr>jsonData := Some pageWithoutBlocks\<rparr>)
   \<and> rectangles (displayed\<lparr>jsonData := Some pageWithoutBlocks\<rparr>)
     = [box ''rect-0'' 10 20 100 50, box ''rect-1'' 200 200 30 30]"
  by (simp add: documentLoaded_def jsonDataEffect_def pageWithoutBlocks_def dragging_def displayed_def)

text \<open>
  C4, amended: whenever a new document whose first page entry has a
  \<^verbatim>\<open>preproc_blocks\<close> array is loaded, the rectangle set is replaced by the rectangles
  derived from those blocks, one per block and in their order (so the number of
  rectangles is the number of blocks); the new set does not depend on the previous one,
  the rectangle at position \<open>i\<close> being \<open>toRect\<close> of block \<open>i\<close> and \<open>i\<close>.
\<close>

theorem rectangles_replaced:
  assumes "pdf_info data = jd001 # others" and "preproc_blocks jd001 = Some blocks"
  shows "documentLoaded data st
           = Inr (st\<lparr>jsonData := Some data, rectangles := mapIndexed toRect blocks\<rparr>)
       \<and> length (mapIndexed toRect blocks) = length blocks
       \<and> (\<forall>i < length blocks. mapIndexed toRect blocks ! i = toRect (blocks ! i) i)"
  using assms
  by (simp add: documentLoaded_def jsonDataEffect_def length_mapIndexed nth_mapIndexed)

theorem rectangles_replaced_witness:
  "pdf_info page1 = [\<lparr>preproc_blocks =
       Some [\<lparr>block_type = ''text'', block_bbox = [10, 20, 110, 70]\<rparr>]\<rparr>]
   \<and> documentLoaded page1 displayed
     = Inr (displayed\<lparr>jsonData := Some page1,
              rectangles := [box ''rect-0'' 10 20 100 50]\<rparr>)"
proof -
  have p: "pdf_info page1 = \<lparr>preproc_blocks =
       Some [\<lparr>block_type = ''text'', block_bbox = [10, 20, 110, 70]\<rparr>]\<rparr> # []"
    by (simp add: page1_def)
  have b: "preproc_blocks \<lparr>preproc_blocks =
       Some [\<lparr>block_type = ''text'', block_bbox = [10, 20, 110, 70]\<rparr>]\<rparr>
     = Some [\<lparr>block_type = ''text'', block_bbox = [10, 20, 110, 70]\<rparr>]"
    by simp
  show ?thesis
    using p rectangles_replaced [OF p b, of displayed]
    by (simp add: mapIndexed_def toRect_def entry_def colorOf_def categoryColors_def
        toString.simps digit_def box_def)
qed

subsection \<open>C5: the resize-top-left drag\<close>

text \<open>
  C5: during a resize-top-left drag of the rectangle with id \<open>rid\<close>, a pointer move with
  delta \<open>(dx, dy)\<close> (the pointer position less the last pointer position) changes \<open>x\<close> by
  \<open>dx\<close>, \<open>y\<close> by \<open>dy\<close>, the width by \<open>- dx\<close> and the height by \<open>- dy\<close>, which is the top-edge
  resize applied to the left-edge resize. The new width and height are exactly these
  values, whatever their sign: nothing clamps them.
\<close>

theorem resize_top_left:
  assumes "dragMode st = ResizeTopLeft" and "draggedRectId st = Some rid" and "rid \<noteq> []"
    and "i < length (rectangles st)" and "rect_id (rectangles st ! i) = rid"
    and "dx = clientX e - left canvas - fst (lastMousePos st)"
    and "dy = clientY e - top canvas - snd (lastMousePos st)"
    and "r = rectangles st ! i"
    and "r' = rectangles (handleMouseMove (Some canvas) e st) ! i"
  shows "rect_x r' = jadd (rect_x r) (Num dx) \<and> rect_y r' = jadd (rect_y r) (Num dy)
       \<and> rect_width r' = jsub (rect_width r) (Num dx)
       \<and> rect_height r' = jsub (rect_height r) (Num dy)
       \<and> (rect_x r = Num a \<and> rect_y r = Num b \<and> rect_width r = Num w \<and> rect_height r = Num h
            \<longrightarrow> rect_x r' = Num (a + dx) \<and> rect_y r' = Num (b + dy)
              \<and> rect_width r' = Num (w - dx) \<and> rect_height r' = Num (h - dy))
       \<and> r' = applyDrag ResizeTop dx dy (applyDrag ResizeLeft dx dy r)
       \<and> rect_id r' = rect_id r \<and> rect_color r' = rect_color r \<and> rect_type r' = rect_type r"
proof -
  have "r' = applyDrag ResizeTopLeft dx dy r"
    using assms handleMouseMove_nth [of st rid i canvas e] by simp
  then show ?thesis by auto
qed

text \<open>
  An instance: a delta of \<open>(120, 5)\<close> on a rectangle 100 wide gives the width \<open>- 20\<close>.
\<close>

theorem resize_top_left_witness:
  "dragMode (dragging ResizeTopLeft (10, 20)) = ResizeTopLeft
   \<and> draggedRectId (dragging ResizeTopLeft (10, 20)) = Some ''rect-0''
   \<and> rectangles (dragging ResizeTopLeft (10, 20)) ! 0 = box ''rect-0'' 10 20 100 50
   \<and> rectangles (handleMouseMove (Some origin) \<lparr>clientX = 130, clientY = 25\<rparr>
        (dragging ResizeTopLeft (10, 20))) ! 0 = box ''rect-0'' 130 25 (- 20) 45"
proof -
  let ?st = "dragging ResizeTopLeft (10, 20)"
  let ?e = "\<lparr>clientX = 130, clientY = 25\<rparr>"
  have h1: "dragMode ?st = ResizeTopLeft" by (simp add: dragging_def displayed_def)
  have h2: "draggedRectId ?st = Some ''rect-0''" by (simp add: dragging_def displayed_def)
  have h3: "''rect-0'' \<noteq> []" by simp
  have h4: "0 < length (rectangles ?st)" by (simp add: dragging_def displayed_def)
  have h5: "rect_id (rectangles ?st ! 0) = ''rect-0''" by (simp add: dragging_def displayed_def box_def)
  have r0: "rectangles ?st ! 0 = box ''rect-0'' 10 20 100 50" by (simp add: dragging_def displayed_def)
  have d: "clientX ?e - left origin - fst (lastMousePos ?st) = 120"
    "clientY ?e - top origin - snd (lastMousePos ?st) = 5"
    by (simp_all add: dragging_def displayed_def origin_def)
  from resize_top_left [where e = ?e and canvas = origin and a = 10 and b = 20 and w = 100
      and h = 50, OF h1 h2 h3 h4 h5 refl refl refl refl]
  have "rectangles (handleMouseMove (Some origin) ?e ?st) ! 0 = box ''rect-0'' 130 25 (- 20) 45"
    unfolding d r0 by (simp add: box_def)
  with h1 h2 r0 show ?thesis by simp
qed

subsection \<open>C6: the move drag\<close>

text \<open>
  C6: during a move drag of the rectangle with id \<open>rid\<close>, a pointer move with delta
  \<open>(dx, dy)\<close> keeps the length of the list; a rectangle with id \<open>rid\<close> has \<open>x\<close> and \<open>y\<close>
  translated by \<open>(dx, dy)\<close> and every other field, width and height among them, as
  before; every rectangle with another id is as before. When the ids of the list are
  distinct, as those of derived rectangles are, all positions but that of the dragged
  rectangle are unchanged.
\<close>

theorem move_translates:
  assumes "dragMode st = Move" and "draggedRectId st = Some rid" and "rid \<noteq> []"
    and "dx = clientX e - left canvas - fst (lastMousePos st)"
    and "dy = clientY e - top canvas - snd (lastMousePos st)"
    and "st' = handleMouseMove (Some canvas) e st"
  shows "length (rectangles st') = length (rectangles st)
       \<and> (\<forall>i < length (rectangles st).
            if rect_id (rectangles st ! i) = rid
            then rectangles st' ! i =
                   (rectangles st ! i)\<lparr>rect_x := jadd (rect_x (rectangles st ! i)) (Num dx),
                                       rect_y := jadd (rect_y (rectangles st ! i)) (Num dy)\<rparr>
               \<and> rect_width (rectangles st' ! i) = rect_width (rectangles st ! i)
               \<and> rect_height (rectangles st' ! i) = rect_height (rectangles st ! i)
            else rectangles st' ! i = rectangles st ! i)
       \<and> (distinct (map rect_id (rectangles st)) \<longrightarrow>
            (\<forall>i < length (rectangles st). \<forall>j < length (rectangles st).
               rect_id (rectangles st ! i) = rid \<and> j \<noteq> i
                 \<longrightarrow> rectangles st' ! j = rectangles st ! j))"
proof -
  have nth: "rectangles st' ! i =
      (if rect_id (rectangles st ! i) = rid then applyDrag Move dx dy (rectangles st ! i)
       else rectangles st ! i)" if "i < length (rectangles st)" for i
    using assms that handleMouseMove_nth [of st rid i canvas e] by simp
  have len: "length (rectangles st') = length (rectangles st)"
    using assms(6) by (simp add: handleMouseMove_length)
  have each: "\<forall>i < length (rectangles st).
            if rect_id (rectangles st ! i) = rid
            then rectangles st' ! i =
                   (rectangles st ! i)\<lparr>rect_x := jadd (rect_x (rectangles st ! i)) (Num dx),
                                       rect_y := jadd (rect_y (rectangles st ! i)) (Num dy)\<rparr>
               \<and> rect_width (rectangles st' ! i) = rect_width (rectangles st ! i)
               \<and> rect_height (rectangles st' ! i) = rect_height (rectangles st ! i)
            else rectangles st' ! i = rectangles st ! i"
    by (simp add: nth)
  have others: "rectangles st' ! j = rectangles st ! j"
    if "distinct (map rect_id (rectangles st))" and "i < length (rectangles st)"
      and "j < length (rectangles st)" and "rect_id (rectangles st ! i) = rid" and "j \<noteq> i"
    for i j
  proof -
    from that have "map rect_id (rectangles st) ! j \<noteq> map rect_id (rectangles st) ! i"
      by (simp add: nth_eq_iff_index_eq del: nth_map)
    with that have "rect_id (rectangles st ! j) \<noteq> rid" by simp
    with that nth [of j] show ?thesis by simp
  qed
  from len each others show ?thesis by blast
qed

theorem move_translates_witness:
  "rectangles (dragging Move (50, 40)) = [box ''rect-0'' 10 20 100 50, box ''rect-1'' 200 200 30 30]
   \<and> rectangles (handleMouseMove (Some origin) \<lparr>clientX = 53, clientY = 44\<rparr> (dragging Move (50, 40)))
     = [box ''rect-0'' 13 24 100 50, box ''rect-1'' 200 200 30 30]"
proof -
  let ?st = "dragging Move (50, 40)"
  let ?e = "\<lparr>clientX = 53, clientY = 44\<rparr>"
  let ?st' = "handleMouseMove (Some origin) ?e ?st"
  have h1: "dragMode ?st = Move" by (simp add: dragging_def displayed_def)
  have h2: "draggedRectId ?st = Some ''rect-0''" by (simp add: dragging_def displayed_def)
  have h3: "''rect-0'' \<noteq> []" by simp
  have rs: "rectangles ?st = [box ''rect-0'' 10 20 100 50, box ''rect-1'' 200 200 30 30]"
    by (simp add: dragging_def displayed_def)
  have d: "clientX ?e - left origin - fst (lastMousePos ?st) = 3"
    "clientY ?e - top origin - snd (lastMousePos ?st) = 4"
    by (simp_all add: dragging_def displayed_def origin_def)
  note m = move_translates [where e = ?e and canvas = origin, OF h1 h2 h3 refl refl refl,
      unfolded d rs]
  from m have len: "length (rectangles ?st') = 2" by simp
  from m have "rectangles ?st' ! 0 = box ''rect-0'' 13 24 100 50"
    by (simp add: box_def)
  moreover from m have "rectangles ?st' ! 1 = box ''rect-1'' 200 200 30 30"
    by (simp add: box_def)
  ultimately have "rectangles ?st' = [box ''rect-0'' 13 24 100 50, box ''rect-1'' 200 200 30 30]"
    using len by (simp add: list_eq_iff_nth_eq less_Suc_eq numeral_2_eq_2)
  with rs show ?thesis by simp
qed

subsection \<open>C7: the error shown for a failed fetch\<close>




subsection \<open>C8: page navigation\<close>



subsection \<open>C9: the colour of a block of unknown type\<close>



subsection \<open>C10: a document without blocks\<close>

text \<open>
  C10: when the first page entry of a newly loaded document has no \<^verbatim>\<open>preproc_blocks\<close>,
  the state after the load is the state before it with \<open>jsonData\<close> replaced: the
  rectangles of the previous page, edits included, stay.
\<close>

theorem missing_blocks_keep_rectangles:
  assumes "pdf_info data = jd001 # others" and "preproc_blocks jd001 = None"
  shows "documentLoaded data st = Inr (st\<lparr>jsonData := Some data\<rparr>)
       \<and> rectangles (st\<lparr>jsonData := Some data\<rparr>) = rectangles st"
  using assms by (simp add: documentLoaded_def jsonDataEffect_def)

theorem missing_blocks_keep_rectangles_witness:
  "pdf_info pageWithoutBlocks = [\<lparr>preproc_blocks = None\<rparr>]
   \<and> documentLoaded pageWithoutBlocks (dragging Move (50, 40))
       = Inr ((dragging Move (50, 40))\<lparr>jsonData := Some pageWithoutBlocks\<rparr>)"
proof -
  have p: "pdf_info pageWithoutBlocks = \<lparr>preproc_blocks = None\<rparr> # []"
    by (simp add: pageWithoutBlocks_def)
  have b: "preproc_blocks \<lparr>preproc_blocks = None\<rparr> = None" by simp
  from p missing_blocks_keep_rectangles [OF p b, of "dragging Move (50, 40)"]
  show ?thesis by simp
qed

end
